theory Spec2Isabelle
  imports Complex_Main "HOL-Library.AList" "HOL-Library.Sublist"
begin

section \<open>Python text primitives\<close>

text \<open>
  Text is modelled as \<open>string\<close>, read as ASCII: \<open>str.lower\<close>, \<open>str.isalnum\<close> and the
  whitespace of \<open>str.strip\<close> and \<open>str.split\<close> are given for the ASCII range, where
  they agree with Python. Text outside ASCII is not part of the model.
\<close>

definition ord :: "char \<Rightarrow> nat" where
  \<comment> \<open>\<open>ord(c)\<close>\<close>
  "ord c = of_char c"

definition lower_char :: "char \<Rightarrow> char" where
  "lower_char c =
     (if 65 \<le> ord c \<and> ord c \<le> 90 then char_of (ord c + 32) else c)"

definition lower :: "string \<Rightarrow> string" where
  "lower s = map lower_char s"

definition is_space :: "char \<Rightarrow> bool" where
  \<comment> \<open>\<open>str.isspace\<close> on one ASCII character: TAB..CR, FS..US and the blank.\<close>
  "is_space c =
     ((9 \<le> ord c \<and> ord c \<le> 13) \<or> (28 \<le> ord c \<and> ord c \<le> 32))"

definition is_alnum_char :: "char \<Rightarrow> bool" where
  "is_alnum_char c =
     ((48 \<le> ord c \<and> ord c \<le> 57) \<or>
      (65 \<le> ord c \<and> ord c \<le> 90) \<or>
      (97 \<le> ord c \<and> ord c \<le> 122))"

definition isalnum :: "string \<Rightarrow> bool" where
  \<comment> \<open>\<open>str.isalnum\<close>: false on the empty string.\<close>
  "isalnum s = (s \<noteq> [] \<and> list_all is_alnum_char s)"

definition startswith :: "string \<Rightarrow> string \<Rightarrow> bool" where
  "startswith s p = (take (length p) s = p)"

definition lstrip_at :: "string \<Rightarrow> string" where
  \<comment> \<open>\<open>s.lstrip("@")\<close>\<close>
  "lstrip_at s = dropWhile (\<lambda>c. c = CHR ''@'') s"

definition strip :: "string \<Rightarrow> string" where
  \<comment> \<open>\<open>s.strip()\<close>\<close>
  "strip s = rev (dropWhile is_space (rev (dropWhile is_space s)))"

fun split_ws :: "string \<Rightarrow> string \<Rightarrow> string list" where
  \<comment> \<open>\<open>s.split()\<close>: the maximal runs of non-whitespace; the first argument is the run being read.\<close>
  "split_ws cur [] = (if cur = [] then [] else [cur])"
| "split_ws cur (c # cs) =
     (if is_space c then (if cur = [] then split_ws [] cs else cur # split_ws [] cs)
      else split_ws (cur @ [c]) cs)"

definition split :: "string \<Rightarrow> string list" where
  "split s = split_ws [] s"

definition contains :: "string \<Rightarrow> string \<Rightarrow> bool" where
  \<comment> \<open>\<open>needle in hay\<close> on two strings\<close>
  "contains needle hay = (\<exists>k \<in> set (upt 0 (Suc (length hay))). take (length needle) (drop k hay) = needle)"

definition digit_char :: "nat \<Rightarrow> char" where
  "digit_char d = char_of (48 + d)"

fun str_nat :: "nat \<Rightarrow> string" where
  "str_nat n = (if n < 10 then [digit_char n] else str_nat (n div 10) @ [digit_char (n mod 10)])"

declare str_nat.simps [simp del]

definition str_int :: "int \<Rightarrow> string" where
  \<comment> \<open>\<open>str(i)\<close> of a Python int\<close>
  "str_int i = (if i < 0 then CHR ''-'' # str_nat (nat (- i)) else str_nat (nat i))"

definition str_opt_int :: "int option \<Rightarrow> string" where
  \<comment> \<open>\<open>str(x)\<close> where \<open>x\<close> is an int or \<open>None\<close>\<close>
  "str_opt_int x = (case x of None \<Rightarrow> ''None'' | Some i \<Rightarrow> str_int i)"

definition str_opt :: "string option \<Rightarrow> string" where
  \<comment> \<open>how an f-string renders a value that is a string or \<open>None\<close>\<close>
  "str_opt x = (case x of None \<Rightarrow> ''None'' | Some s \<Rightarrow> s)"

section \<open>JSON values as the \<open>json\<close> module reads them\<close>

text \<open>
  A response body parsed by \<open>r.json()\<close>. An object keeps its members in order, as a Python
  dict does. A number with a fraction or exponent is a float; the model carries its exact
  value as a rational (the non-finite floats are left out).
\<close>

datatype json =
    JNull
  | JBool bool
  | JInt int
  | JFloat rat
  | JStr string
  | JArr "json list"
  | JObj "(string \<times> json) list"

datatype error = AttributeError | TypeError | IndexError | KeyError

fun truthy :: "json \<Rightarrow> bool" where
  "truthy JNull = False"
| "truthy (JBool b) = b"
| "truthy (JInt i) = (i \<noteq> 0)"
| "truthy (JFloat q) = (q \<noteq> 0)"
| "truthy (JStr s) = (s \<noteq> [])"
| "truthy (JArr xs) = (xs \<noteq> [])"
| "truthy (JObj kvs) = (kvs \<noteq> [])"

fun get_default :: "json \<Rightarrow> string \<Rightarrow> json \<Rightarrow> error + json" where
  \<comment> \<open>\<open>x.get(k, d)\<close>: only a dict has the method\<close>
  "get_default (JObj kvs) k d = Inr (case map_of kvs k of None \<Rightarrow> d | Some v \<Rightarrow> v)"
| "get_default _ k d = Inl AttributeError"

definition get :: "json \<Rightarrow> string \<Rightarrow> error + json" where
  \<comment> \<open>\<open>x.get(k)\<close>\<close>
  "get x k = get_default x k JNull"

fun iter :: "json \<Rightarrow> error + json list" where
  \<comment> \<open>what a \<open>for\<close> loop walks through: the elements of a list, the characters of a string,
      the keys of a dict; anything else is not iterable\<close>
  "iter (JArr xs) = Inr xs"
| "iter (JStr s) = Inr (map (\<lambda>c. JStr [c]) s)"
| "iter (JObj kvs) = Inr (map (\<lambda>kv. JStr (fst kv)) kvs)"
| "iter _ = Inl TypeError"

fun subscript0 :: "json \<Rightarrow> error + json" where
  \<comment> \<open>\<open>x[0]\<close>\<close>
  "subscript0 (JArr []) = Inl IndexError"
| "subscript0 (JArr (x # xs)) = Inr x"
| "subscript0 (JStr []) = Inl IndexError"
| "subscript0 (JStr (c # cs)) = Inr (JStr [c])"
| "subscript0 (JObj kvs) = Inl KeyError"
| "subscript0 _ = Inl TypeError"

definition hex_digit :: "nat \<Rightarrow> char" where
  "hex_digit d = (if d < 10 then char_of (48 + d) else char_of (87 + d))"

definition escape_char :: "char \<Rightarrow> string" where
  \<comment> \<open>\<open>json.dumps\<close> with \<open>ensure_ascii\<close>: the quote and the backslash are escaped, the five
      short escapes are used, everything else outside blank..tilde becomes \<open>\\u00XX\<close>\<close>
  "escape_char c =
     (let n = ord c in
      if n = 34 then [CHR 0x5C, CHR 0x22]
      else if n = 92 then [CHR 0x5C, CHR 0x5C]
      else if n = 10 then [CHR 0x5C, CHR ''n'']
      else if n = 13 then [CHR 0x5C, CHR ''r'']
      else if n = 9 then [CHR 0x5C, CHR ''t'']
      else if n = 8 then [CHR 0x5C, CHR ''b'']
      else if n = 12 then [CHR 0x5C, CHR ''f'']
      else if 32 \<le> n \<and> n \<le> 126 then [c]
      else [CHR 0x5C, CHR ''u'', CHR ''0'', CHR ''0'', hex_digit (n div 16), hex_digit (n mod 16)])"

definition quote :: "string \<Rightarrow> string" where
  "quote s = [CHR 0x22] @ concat (map escape_char s) @ [CHR 0x22]"

fun join_with :: "string \<Rightarrow> string list \<Rightarrow> string" where
  "join_with sep [] = []"
| "join_with sep [x] = x"
| "join_with sep (x # y # ys) = x @ sep @ join_with sep (y # ys)"

fun dumps :: "(rat \<Rightarrow> string) \<Rightarrow> json \<Rightarrow> string" where
  \<comment> \<open>\<open>json.dumps(x)\<close> with its default separators; the first argument is \<open>float.__repr__\<close>\<close>
  "dumps fr JNull = ''null''"
| "dumps fr (JBool b) = (if b then ''true'' else ''false'')"
| "dumps fr (JInt i) = str_int i"
| "dumps fr (JFloat q) = fr q"
| "dumps fr (JStr s) = quote s"
| "dumps fr (JArr xs) = ''['' @ join_with '', '' (map (dumps fr) xs) @ '']''"
| "dumps fr (JObj kvs) =
     ''{'' @ join_with '', '' (map (\<lambda>kv. quote (fst kv) @ '': '' @ dumps fr (snd kv)) kvs) @ ''}''"

definition bind_err :: "error + 'a \<Rightarrow> ('a \<Rightarrow> error + 'b) \<Rightarrow> error + 'b" where
  \<comment> \<open>sequencing: the first exception raised ends the computation\<close>
  "bind_err m f = (case m of Inl e \<Rightarrow> Inl e | Inr v \<Rightarrow> f v)"

definition or_get :: "error + json \<Rightarrow> error + json \<Rightarrow> error + json" where
  \<comment> \<open>Python's \<open>a or b\<close>: \<open>b\<close> is evaluated only when \<open>a\<close> is falsy\<close>
  "or_get a b = bind_err a (\<lambda>v. if truthy v then Inr v else b)"

definition or_else :: "string option \<Rightarrow> string option \<Rightarrow> string option" where
  \<comment> \<open>\<open>a or b\<close> on values that are a string or \<open>None\<close>\<close>
  "or_else a b = (case a of None \<Rightarrow> b | Some s \<Rightarrow> if s \<noteq> [] then a else b)"

section \<open>Configuration\<close>

definition WALLET :: string where
  "WALLET = ''GFxQeqQBhgu4yLYLf7BFUBkRkhbfTnkAfwsrN9TEaTZv''"

definition MIN_LAMPORTS :: int where
  \<comment> \<open>\<open>int(0.15 * 1_000_000_000)\<close>\<close>
  "MIN_LAMPORTS = 150000000"

definition WHITELIST :: "string list" where
  "WHITELIST = [''leopex1'', ''Degenetive'', ''SLCScannerBot'', ''Steez431'', ''cripplingdegen'',
                ''ARC'', ''MoneyMalicia'']"

definition WL_SET :: "string set" where
  "WL_SET = set (map (\<lambda>u. lstrip_at (lower u)) WHITELIST)"

definition TTL :: int where
  \<comment> \<open>\<open>timedelta(days=30)\<close> in microseconds\<close>
  "TTL = 30 * 86400 * 1000000"

definition DT_MAX :: int where
  \<comment> \<open>\<open>datetime.max\<close>, in microseconds since \<open>datetime.min\<close>\<close>
  "DT_MAX = 3652059 * 86400 * 1000000 - 1"

definition MEMO :: string where
  "MEMO = ''SLC30''"

definition TRANSFER_KEYS :: "string list" where
  "TRANSFER_KEYS = [''nativeTransfers'', ''solTransfers'', ''transfers'', ''tokenTransfers'',
                    ''sol_transfer'']"

definition welcome_text :: string where
  \<comment> \<open>the local \<open>welcome\<close> of \<open>grant_access_to\<close>\<close>
  "welcome_text = ''Welcome to the SLC Trench Scanner. This channel provides raw contract addresses scans from inside the SLC ecosystem in real-time. '' @
             ''There is no delay, every CA inside the SLC will be immediately sent into here. You are only seeing the data, no theories, no due diligence, no inside info. '' @
             ''There will be duplicates, there will be times of noise and times of silence. The alpha is there, the runner is there, it is up to you to find it. '' @
             ''For full Discord access, inquire via DM at 431steez. Join the SLC, access the edge.''"

definition norm_username :: "string \<Rightarrow> string" where
  "norm_username u = (if u = [] then [] else lstrip_at (lower u))"

definition is_whitelisted :: "string \<Rightarrow> bool" where
  "is_whitelisted username = (norm_username username \<in> WL_SET)"

section \<open>The store\<close>

text \<open>
  The global \<open>data\<close>: three entries, each read with a default, so a missing entry and an
  empty one are the same store. A dict is an association list in insertion order;
  \<open>AList.update\<close> overwrites in place or appends, as a dict assignment does.
  A membership record is a dict with up to four entries; a field that is \<open>None\<close> here is
  a key the dict does not have. \<open>user_id\<close> holds what \<open>frm.get("id")\<close> gave, which may be
  Python's \<open>None\<close>: \<open>Some None\<close>.
\<close>

record member =
  join :: "string option"
  last_paid :: "string option"
  wallet :: "string option"
  user_id :: "int option option"

record store =
  users :: "(string \<times> member) list"
  wallet_map :: "(string \<times> string) list"
  seen_tx :: "string list"

definition no_fields :: member where
  \<comment> \<open>the empty dict \<open>{}\<close>\<close>
  "no_fields = \<lparr>join = None, last_paid = None, wallet = None, user_id = None\<rparr>"

definition load_default :: store where
  \<comment> \<open>what \<open>load_data\<close> returns when no file exists\<close>
  "load_default = \<lparr>users = [], wallet_map = [], seen_tx = []\<rparr>"

definition setdefault_user :: "string \<Rightarrow> (string \<times> member) list \<Rightarrow> member" where
  \<comment> \<open>the record \<open>users.setdefault(uname, {})\<close> hands back, before it is written to\<close>
  "setdefault_user uname us = (case map_of us uname of None \<Rightarrow> no_fields | Some u \<Rightarrow> u)"

definition setdefault_join :: "string \<Rightarrow> member \<Rightarrow> member" where
  \<comment> \<open>\<open>u.setdefault("join", now)\<close>, and equally \<open>if "join" not in u: u["join"] = now\<close>\<close>
  "setdefault_join now u = (if join u = None then u\<lparr>join := Some now\<rparr> else u)"

section \<open>The outside world\<close>

text \<open>
  A \<open>chat\<close> is what is passed as \<open>chat_id\<close>: \<open>None\<close>, a numeric id or a name. The two
  fire-and-forget calls to the messaging platform are requests; each is logged with
  whether the HTTP call returned (\<open>True\<close>) or raised and was swallowed (\<open>False\<close>).
  \<open>save_data\<close> is logged with the store it wrote. Printing is left out.
\<close>

datatype chat = Nobody | ChatId int | ChatName string

datatype request = SendMessage chat string | KickChatMember string int

datatype effect = Post request bool | Save store

text \<open>
  Everything the code reads from outside, and the library functions the model does not
  spell out. A \<open>datetime\<close> is the count of microseconds since \<open>datetime.min\<close>; stored
  time stamps are the strings \<open>isoformat\<close> makes. \<open>fromisoformat\<close>, \<open>int_of_str\<close> and
  \<open>float_lamports\<close> give \<open>None\<close> where the Python call raises; time stamps that carry a
  UTC offset are not modelled.
\<close>

record env =
  fromisoformat :: "string \<Rightarrow> int option"  \<comment> \<open>\<open>datetime.fromisoformat(s)\<close>\<close>
  isoformat :: "int \<Rightarrow> string"  \<comment> \<open>\<open>d.isoformat()\<close>\<close>
  int_of_str :: "string \<Rightarrow> int option"  \<comment> \<open>\<open>int(s)\<close> on a string\<close>
  float_lamports :: "string \<Rightarrow> int option"  \<comment> \<open>\<open>int(float(s) * 1_000_000_000)\<close> on a string\<close>
  float_repr :: "rat \<Rightarrow> string"  \<comment> \<open>\<open>repr\<close> of a float\<close>
  SLC_CHAT_ID :: string
  utcnow :: int  \<comment> \<open>the reading of \<open>datetime.utcnow()\<close> during a grant or a registration\<close>
  get_tx_detail :: "string \<Rightarrow> json"  \<comment> \<open>the detail fetched for a signature, \<open>{}\<close> on failure\<close>
  export_invite_link :: "string \<Rightarrow> string option"  \<comment> \<open>the invite link, \<open>None\<close> on failure\<close>
  post_ok :: "request \<Rightarrow> bool"  \<comment> \<open>whether \<open>requests.post\<close> returns for this request\<close>

definition send_message :: "env \<Rightarrow> chat \<Rightarrow> string \<Rightarrow> effect list" where
  \<comment> \<open>\<open>try: requests.post(...) except Exception: pass\<close>\<close>
  "send_message env chat_id txt = [Post (SendMessage chat_id txt) (post_ok env (SendMessage chat_id txt))]"

definition kick_from_chat :: "env \<Rightarrow> string \<Rightarrow> int \<Rightarrow> effect list" where
  "kick_from_chat env chat_id uid =
     [Post (KickChatMember chat_id uid) (post_ok env (KickChatMember chat_id uid))]"

definition save_data :: "store \<Rightarrow> effect list" where
  "save_data d = [Save d]"

definition truthy_id :: "int option option \<Rightarrow> int option" where
  \<comment> \<open>\<open>u.get("user_id")\<close> when it is truthy: a non-zero int\<close>
  "truthy_id x = (case x of Some (Some i) \<Rightarrow> if i \<noteq> 0 then Some i else None | _ \<Rightarrow> None)"

definition chat_of :: "int option \<Rightarrow> chat" where
  "chat_of uid = (case uid of None \<Rightarrow> Nobody | Some i \<Rightarrow> ChatId i)"

section \<open>Access actions\<close>

definition grant_key :: "string \<Rightarrow> string" where
  \<comment> \<open>\<open>username if username.startswith("@") else ("@" + username) if username.isalnum() else username\<close>\<close>
  "grant_key username =
     (if startswith username ''@'' then username
      else if isalnum username then ''@'' @ username else username)"

definition grant_access_to :: "env \<Rightarrow> string \<Rightarrow> string \<Rightarrow> string \<Rightarrow> store \<Rightarrow> store \<times> effect list" where
  "grant_access_to env username wallet_addr sig st =
     (let uname = grant_key username;
          u = setdefault_user uname (users st);
          now = isoformat env (utcnow env);
          u' = (setdefault_join now u)\<lparr>last_paid := Some now, wallet := Some wallet_addr\<rparr>;
          st' = st\<lparr>users := AList.update uname u' (users st)\<rparr>;
          invite = export_invite_link env (SLC_CHAT_ID env);
          target = (case truthy_id (user_id u') of Some i \<Rightarrow> ChatId i | None \<Rightarrow> ChatName uname)
      in (st',
          send_message env target welcome_text @
          (case invite of
             None \<Rightarrow> []
           | Some link \<Rightarrow>
               if link \<noteq> [] then
                 send_message env target (''Join the private SLC Trench Scanner here: '' @ link)
               else []) @
          save_data st'))"

section \<open>Command handler\<close>

text \<open>
  One pass of the body of the \<open>for upd in ...\<close> loop of \<open>poll_telegram_updates\<close>, on a
  message whose \<open>text\<close> is a string and whose sender carries an optional handle and an
  optional numeric id.
\<close>

record message =
  msg_text :: string
  from_username :: "string option"
  from_id :: "int option"

definition sender_name :: "message \<Rightarrow> string" where
  \<comment> \<open>\<open>("@" + frm.get("username")) if frm.get("username") else str(frm.get("id"))\<close>\<close>
  "sender_name msg =
     (case from_username msg of
        None \<Rightarrow> str_opt_int (from_id msg)
      | Some h \<Rightarrow> if h \<noteq> [] then ''@'' @ h else str_opt_int (from_id msg))"

definition expiry_text :: "env \<Rightarrow> string option \<Rightarrow> string" where
  \<comment> \<open>\<open>expire\<close>: \<open>"N/A"\<close> unless \<open>last\<close> (here \<open>lastp\<close>) is truthy, parses, and adding 30 days stays in range\<close>
  "expiry_text env lastp =
     (case lastp of
        None \<Rightarrow> ''N/A''
      | Some l \<Rightarrow>
          if l = [] then ''N/A''
          else (case fromisoformat env l of
                  None \<Rightarrow> ''N/A''
                | Some t \<Rightarrow> if t + TTL \<le> DT_MAX then isoformat env (t + TTL) else ''N/A''))"

definition start_with_wallet :: "env \<Rightarrow> string \<Rightarrow> int option \<Rightarrow> string \<Rightarrow> store \<Rightarrow> store \<times> effect list" where
  "start_with_wallet env uname uid w st =
     (let wm = AList.update w uname (wallet_map st);
          u = setdefault_user uname (users st);
          u' = (setdefault_join (isoformat env (utcnow env)) u)\<lparr>user_id := Some uid, wallet := Some w\<rparr>;
          st' = st\<lparr>wallet_map := wm, users := AList.update uname u' (users st)\<rparr>
      in (st',
          save_data st' @
          send_message env (chat_of uid)
            (''Thanks '' @ uname @ ''. I mapped wallet `'' @ w @
             ''` to your Telegram account. Now send payment of >=0.15 SOL with memo `SLC30` to '' @
             WALLET @ ''.'')))"

definition start_without_wallet :: "env \<Rightarrow> string \<Rightarrow> int option \<Rightarrow> store \<Rightarrow> store \<times> effect list" where
  "start_without_wallet env uname uid st =
     (let u = setdefault_user uname (users st);
          u' = (setdefault_join (isoformat env (utcnow env)) u)\<lparr>user_id := Some uid\<rparr>;
          st' = st\<lparr>users := AList.update uname u' (users st)\<rparr>
      in (st',
          save_data st' @
          send_message env (chat_of uid)
            ''Send `/start <your_solana_wallet_address>` so I can match your payment. Example: `/start DqTx...`''))"

definition myjoin :: "env \<Rightarrow> string \<Rightarrow> int option \<Rightarrow> store \<Rightarrow> store \<times> effect list" where
  "myjoin env uname uid st =
     (case map_of (users st) uname of
        None \<Rightarrow>
          (st, send_message env (chat_of uid)
                 ''No join record found. Use `/start <wallet>` first before paying.'')
      | Some info \<Rightarrow>
          if info = no_fields then
            (st, send_message env (chat_of uid)
                   ''No join record found. Use `/start <wallet>` first before paying.'')
          else
            (st, send_message env (chat_of uid)
                   (''Joined: '' @ str_opt (join info) @ [CHR 0x0A] @
                    ''Last paid: '' @ str_opt (last_paid info) @ [CHR 0x0A] @
                    ''Expires: '' @ expiry_text env (last_paid info))))"

definition handle_message :: "env \<Rightarrow> message \<Rightarrow> store \<Rightarrow> store \<times> effect list" where
  "handle_message env msg st =
     (let txt = strip (msg_text msg);
          uname = sender_name msg;
          uid = from_id msg
      in if startswith (lower txt) ''/start'' then
           (case split txt of
              p0 # p1 # ps \<Rightarrow> start_with_wallet env uname uid (strip p1) st
            | _ \<Rightarrow> start_without_wallet env uname uid st)
         else if startswith (lower txt) ''/myjoin'' then myjoin env uname uid st
         else (st, []))"

section \<open>Expiry sweeper\<close>

text \<open>
  One sweep: the body of the \<open>while True\<close> loop of \<open>daily_expiry_check\<close> after its sleep.
  The loop walks a snapshot of the records; \<open>clock uname\<close> is the reading of
  \<open>datetime.utcnow()\<close> taken while the record of \<open>uname\<close> is examined. The third component
  of the loop state is the flag \<open>changed\<close>.
\<close>

definition drop_user :: "string \<Rightarrow> store \<Rightarrow> store" where
  \<comment> \<open>\<open>data["users"].pop(uname, None)\<close> and the loop popping every wallet mapped to \<open>uname\<close>\<close>
  "drop_user uname st =
     st\<lparr>users := AList.delete uname (users st),
        wallet_map := filter (\<lambda>wa. snd wa \<noteq> uname) (wallet_map st)\<rparr>"

definition last_active :: "env \<Rightarrow> member \<Rightarrow> int option" where
  \<comment> \<open>\<open>last = info.get("last_paid") or info.get("join")\<close>, parsed; \<open>None\<close> where the loop
      body says \<open>continue\<close>\<close>
  "last_active env info =
     (case or_else (last_paid info) (join info) of
        None \<Rightarrow> None
      | Some lastp \<Rightarrow> if lastp = [] then None else fromisoformat env lastp)"

definition expiry_step ::
  "env \<Rightarrow> (string \<Rightarrow> int) \<Rightarrow> string \<times> member \<Rightarrow> store \<times> effect list \<times> bool \<Rightarrow> store \<times> effect list \<times> bool" where
  "expiry_step env clock rec acc =
     (let uname = fst rec; info = snd rec; st = fst acc; out = fst (snd acc) in
      if is_whitelisted uname then acc
      else (case last_active env info of
              None \<Rightarrow> acc
            | Some last_dt \<Rightarrow>
                if clock uname - last_dt > TTL then
                  (drop_user uname st,
                   out @ (case truthy_id (user_id info) of
                            None \<Rightarrow> []
                          | Some i \<Rightarrow>
                              kick_from_chat env (SLC_CHAT_ID env) i @
                              send_message env (ChatId i)
                                ''Your 30-day access expired and you have been removed from the SLC Trench Scanner. Re-pay to regain access.''),
                   True)
                else acc))"

definition daily_expiry_check :: "env \<Rightarrow> (string \<Rightarrow> int) \<Rightarrow> store \<Rightarrow> store \<times> effect list" where
  "daily_expiry_check env clock st =
     (let r = foldl (\<lambda>acc rec. expiry_step env clock rec acc) (st, [], False) (users st)
      in (fst r, fst (snd r) @ (if snd (snd r) then save_data (fst r) else [])))"

section \<open>Ledger scanner\<close>

text \<open>
  A transaction summary carries its identifier under \<open>txHash\<close> or \<open>signature\<close>; the detail
  fetched for it is whatever JSON the explorer answered.
\<close>

record tx =
  txHash :: "string option"
  signature :: "string option"

definition tx_sig :: "tx \<Rightarrow> string option" where
  \<comment> \<open>\<open>tx.get("txHash") or tx.get("signature")\<close>\<close>
  "tx_sig t = or_else (txHash t) (signature t)"

definition trunc :: "rat \<Rightarrow> int" where
  \<comment> \<open>\<open>int(x)\<close> on a float: towards zero\<close>
  "trunc q = (if 0 \<le> q then \<lfloor>q\<rfloor> else \<lceil>q\<rceil>)"

fun lamports_of :: "env \<Rightarrow> json \<Rightarrow> int" where
  \<comment> \<open>what the nested \<open>try\<close> adds for a truthy \<open>amt\<close>: \<open>int(amt)\<close>, else
      \<open>int(float(amt) * 1_000_000_000)\<close>, else nothing. On a list or dict both calls raise.\<close>
  "lamports_of env (JInt i) = i"
| "lamports_of env (JBool b) = (if b then 1 else 0)"
| "lamports_of env (JFloat q) = trunc q"
| "lamports_of env (JStr s) =
     (case int_of_str env s of
        Some i \<Rightarrow> i
      | None \<Rightarrow> (case float_lamports env s of Some i \<Rightarrow> i | None \<Rightarrow> 0))"
| "lamports_of env _ = 0"

definition dest_field :: "json \<Rightarrow> error + json" where
  \<comment> \<open>\<open>item.get("to") or item.get("destination") or item.get("tokenAddress")\<close>\<close>
  "dest_field item =
     or_get (get item ''to'') (or_get (get item ''destination'') (get item ''tokenAddress''))"

definition amount_field :: "json \<Rightarrow> error + json" where
  \<comment> \<open>\<open>item.get("amount") or item.get("lamports") or item.get("value")\<close>\<close>
  "amount_field item =
     or_get (get item ''amount'') (or_get (get item ''lamports'') (get item ''value''))"

definition item_lamports :: "env \<Rightarrow> json \<Rightarrow> error + int" where
  \<comment> \<open>what one transfer item adds to \<open>lamports\<close>, or the exception it raises\<close>
  "item_lamports env item =
     bind_err (dest_field item)
       (\<lambda>to. bind_err (amount_field item)
         (\<lambda>amt. if \<not> truthy to then Inr 0
                else (case to of
                        JStr s \<Rightarrow> if lower s = lower WALLET \<and> truthy amt then Inr (lamports_of env amt)
                                  else Inr 0
                      | _ \<Rightarrow> Inl AttributeError)))"

fun sum_items :: "env \<Rightarrow> json list \<Rightarrow> int \<Rightarrow> error + int" where
  "sum_items env [] acc = Inr acc"
| "sum_items env (item # items) acc =
     bind_err (item_lamports env item) (\<lambda>n. sum_items env items (acc + n))"

fun sum_keys :: "env \<Rightarrow> json \<Rightarrow> string list \<Rightarrow> int \<Rightarrow> error + int" where
  \<comment> \<open>\<open>for k in (...): for item in (detail.get(k) or []): ...\<close>\<close>
  "sum_keys env detail [] acc = Inr acc"
| "sum_keys env detail (k # ks) acc =
     bind_err (get detail k)
       (\<lambda>v. bind_err (iter (if truthy v then v else JArr []))
         (\<lambda>items. bind_err (sum_items env items acc) (\<lambda>acc'. sum_keys env detail ks acc')))"

definition summed_lamports :: "env \<Rightarrow> json \<Rightarrow> error + int" where
  "summed_lamports env detail = sum_keys env detail TRANSFER_KEYS 0"

definition memo_found :: "env \<Rightarrow> json \<Rightarrow> bool" where
  \<comment> \<open>\<open>"SLC30" in json.dumps(detail)\<close>\<close>
  "memo_found env detail = contains MEMO (dumps (float_repr env) detail)"

definition first_account_key :: "json \<Rightarrow> error + json" where
  \<comment> \<open>\<open>(detail.get("transaction",{}) or {}).get("message",{}).get("accountKeys", [None])[0]\<close>\<close>
  "first_account_key detail =
     bind_err (get_default detail ''transaction'' (JObj []))
       (\<lambda>t. bind_err (get_default (if truthy t then t else JObj []) ''message'' (JObj []))
         (\<lambda>m. bind_err (get_default m ''accountKeys'' (JArr [JNull])) subscript0))"

definition signer_of :: "json \<Rightarrow> error + json" where
  \<comment> \<open>\<open>detail.get("feePayer") or detail.get("signer") or ...\<close>\<close>
  "signer_of detail =
     or_get (get detail ''feePayer'') (or_get (get detail ''signer'') (first_account_key detail))"

fun wallet_owner :: "(string \<times> string) list \<Rightarrow> json \<Rightarrow> error + (string \<times> string) option" where
  \<comment> \<open>\<open>wallet_map.get(signer)\<close> with a truthy result: the key and the name found. A list or a
      dict is unhashable; any other value that is not a string is no key of the map.\<close>
  "wallet_owner wm (JStr s) =
     Inr (case map_of wm s of
            None \<Rightarrow> None
          | Some username \<Rightarrow> if username \<noteq> [] then Some (s, username) else None)"
| "wallet_owner wm (JArr xs) = Inl TypeError"
| "wallet_owner wm (JObj kvs) = Inl TypeError"
| "wallet_owner wm _ = Inr None"

definition payment_steps :: "env \<Rightarrow> json \<Rightarrow> string \<Rightarrow> store \<Rightarrow> store \<times> effect list \<times> error option" where
  \<comment> \<open>the body of the \<open>try\<close>; the third component is the exception that leaves it, if any\<close>
  "payment_steps env detail sig st =
     (case summed_lamports env detail of
        Inl e \<Rightarrow> (st, [], Some e)
      | Inr lamports \<Rightarrow>
          if lamports \<ge> MIN_LAMPORTS \<and> memo_found env detail then
            (case signer_of detail of
               Inl e \<Rightarrow> (st, [], Some e)
             | Inr signer \<Rightarrow>
                 if truthy signer then
                   (case wallet_owner (wallet_map st) signer of
                      Inl e \<Rightarrow> (st, [], Some e)
                    | Inr None \<Rightarrow> (st, [], None)
                    | Inr (Some wu) \<Rightarrow>
                        (let r = grant_access_to env (snd wu) (fst wu) sig st
                         in (fst r, snd r, None)))
                 else (st, [], None))
          else (st, [], None))"

definition handle_new_payment :: "env \<Rightarrow> tx \<Rightarrow> store \<Rightarrow> store \<times> effect list \<times> error option" where
  "handle_new_payment env t st =
     (case tx_sig t of
        None \<Rightarrow> (st, [], None)
      | Some sig \<Rightarrow>
          if sig = [] \<or> sig \<in> set (seen_tx st) then (st, [], None)
          else
            (let detail = get_tx_detail env sig;
                 st1 = st\<lparr>seen_tx := seen_tx st @ [sig]\<rparr>;
                 r = payment_steps env detail sig st1
             in (fst r, fst (snd r) @ save_data (fst r), snd (snd r))))"

section \<open>A small world for the examples\<close>

text \<open>
  An instance of the outside world in which a time stamp is written as the decimal count
  of microseconds, \<open>int(s)\<close> reads plain digit strings, and no string reads as a float.
\<close>

fun digits_value :: "string \<Rightarrow> nat \<Rightarrow> nat option" where
  "digits_value [] acc = Some acc"
| "digits_value (c # cs) acc =
     (if 48 \<le> ord c \<and> ord c \<le> 57 then digits_value cs (10 * acc + (ord c - 48)) else None)"

definition parse_digits :: "string \<Rightarrow> int option" where
  "parse_digits s = (if s = [] then None else map_option int (digits_value s 0))"

definition demo_env :: env where
  "demo_env =
     \<lparr>fromisoformat = parse_digits, isoformat = str_int, int_of_str = parse_digits,
      float_lamports = (\<lambda>s. None), float_repr = (\<lambda>q. ''0.5''), SLC_CHAT_ID = ''-100'',
      utcnow = 1000, get_tx_detail = (\<lambda>s. JObj []),
      export_invite_link = (\<lambda>c. Some ''https://t.me/x''), post_ok = (\<lambda>r. True)\<rparr>"

section \<open>Conditions named by the specification\<close>








section \<open>Idempotent payment processing\<close>

text \<open>
  C1. A transaction whose identifier is already in \<open>seen_tx\<close> is not processed again:
  \<open>handle_new_payment\<close> returns the store as it was (every membership record and the
  wallet map included), sends no message, writes nothing and raises nothing, so no second
  grant and no second \<open>last_paid\<close> update take place.
\<close>

theorem seen_payment_is_noop:
  "tx_sig t = Some sig \<Longrightarrow> sig \<in> set (seen_tx st) \<Longrightarrow> handle_new_payment env t st = (st, [], None)"
  by (simp add: handle_new_payment_def)

theorem seen_payment_is_noop_witness:
  "tx_sig \<lparr>txHash = Some ''sigA'', signature = None\<rparr> = Some ''sigA'' \<and>
   ''sigA'' \<in> set (seen_tx \<lparr>users = [], wallet_map = [], seen_tx = [''sigA'']\<rparr>) \<and>
   handle_new_payment demo_env \<lparr>txHash = Some ''sigA'', signature = None\<rparr>
       \<lparr>users = [], wallet_map = [], seen_tx = [''sigA'']\<rparr> =
     (\<lparr>users = [], wallet_map = [], seen_tx = [''sigA'']\<rparr>, [], None)"
proof -
  have h1: "tx_sig \<lparr>txHash = Some ''sigA'', signature = None\<rparr> = Some ''sigA''"
    by (simp add: tx_sig_def or_else_def)
  have h2: "''sigA'' \<in> set (seen_tx \<lparr>users = [], wallet_map = [], seen_tx = [''sigA'']\<rparr>)"
    by simp
  show ?thesis
    using h1 h2 seen_payment_is_noop [OF h1 h2, of demo_env] by simp
qed

section \<open>Frame lemmas\<close>

lemma grant_seen [simp]: "seen_tx (fst (grant_access_to env u w sig st)) = seen_tx st"
  by (simp add: grant_access_to_def Let_def)

lemma grant_wallet_map [simp]: "wallet_map (fst (grant_access_to env u w sig st)) = wallet_map st"
  by (simp add: grant_access_to_def Let_def)

lemma payment_steps_seen [simp]: "seen_tx (fst (payment_steps env d sig st)) = seen_tx st"
  by (simp add: payment_steps_def Let_def split: sum.splits option.splits)

lemma payment_steps_wallet_map [simp]:
  "wallet_map (fst (payment_steps env d sig st)) = wallet_map st"
  by (simp add: payment_steps_def Let_def split: sum.splits option.splits)

lemma myjoin_store [simp]: "fst (myjoin env uname uid st) = st"
  by (simp add: myjoin_def split: option.splits)

lemma grant_keeps_join:
  assumes "map_option join (map_of (users st) k) = Some (Some j)"
  shows "map_option join (map_of (users (fst (grant_access_to env username w sig st))) k) = Some (Some j)"
  using assms
  by (auto simp: grant_access_to_def Let_def update_conv' setdefault_user_def setdefault_join_def)

lemma start_with_wallet_keeps_join:
  assumes "map_option join (map_of (users st) k) = Some (Some j)"
  shows "map_option join (map_of (users (fst (start_with_wallet env uname uid w st))) k) = Some (Some j)"
  using assms
  by (auto simp: start_with_wallet_def Let_def update_conv' setdefault_user_def setdefault_join_def)

lemma start_without_wallet_keeps_join:
  assumes "map_option join (map_of (users st) k) = Some (Some j)"
  shows "map_option join (map_of (users (fst (start_without_wallet env uname uid st))) k) = Some (Some j)"
  using assms
  by (auto simp: start_without_wallet_def Let_def update_conv' setdefault_user_def setdefault_join_def)

lemma handle_message_keeps_join:
  assumes "map_option join (map_of (users st) k) = Some (Some j)"
  shows "map_option join (map_of (users (fst (handle_message env msg st))) k) = Some (Some j)"
  using assms start_with_wallet_keeps_join [OF assms] start_without_wallet_keeps_join [OF assms]
  by (simp add: handle_message_def Let_def split: list.splits)

lemma payment_steps_keeps_join:
  assumes "map_option join (map_of (users st) k) = Some (Some j)"
  shows "map_option join (map_of (users (fst (payment_steps env d sig st))) k) = Some (Some j)"
  using assms grant_keeps_join [OF assms]
  by (simp add: payment_steps_def Let_def split: sum.splits option.splits)

lemma handle_new_payment_keeps_join:
  assumes "map_option join (map_of (users st) k) = Some (Some j)"
  shows "map_option join (map_of (users (fst (handle_new_payment env t st))) k) = Some (Some j)"
proof -
  have "map_option join (map_of (users (fst (payment_steps env d sig (st\<lparr>seen_tx := xs\<rparr>)))) k) = Some (Some j)"
    for d sig xs
    using payment_steps_keeps_join [of "st\<lparr>seen_tx := xs\<rparr>" k j] assms by simp
  then show ?thesis using assms
    by (simp add: handle_new_payment_def Let_def split: option.splits)
qed

section \<open>Fail-closed marking of transactions\<close>

text \<open>
  C4. For a transaction whose identifier \<open>sig\<close> is not yet in \<open>seen_tx\<close>,
  \<open>handle_new_payment\<close> appends \<open>sig\<close> to \<open>seen_tx\<close> first and runs the amount, memo and
  grant steps on the store that already holds it. Whatever those steps do, and whether or
  not one of them raises, the final store has \<open>seen_tx\<close> extended by \<open>sig\<close>, and
  processing the same transaction again, in any state of the outside world, is a no-op.
\<close>

theorem marked_seen_before_steps:
  assumes "tx_sig t = Some sig" and "sig \<noteq> []" and "sig \<notin> set (seen_tx st)"
  shows "fst (handle_new_payment env t st) =
           fst (payment_steps env (get_tx_detail env sig) sig (st\<lparr>seen_tx := seen_tx st @ [sig]\<rparr>)) \<and>
         seen_tx (fst (handle_new_payment env t st)) = seen_tx st @ [sig] \<and>
         handle_new_payment env' t (fst (handle_new_payment env t st)) =
           (fst (handle_new_payment env t st), [], None)"
  using assms by (simp add: handle_new_payment_def Let_def)

theorem marked_seen_before_steps_witness:
  "tx_sig \<lparr>txHash = Some ''sigA'', signature = None\<rparr> = Some ''sigA'' \<and> ''sigA'' \<noteq> [] \<and>
   ''sigA'' \<notin> set (seen_tx load_default) \<and>
   snd (snd (handle_new_payment (demo_env\<lparr>get_tx_detail := (\<lambda>s. JArr [])\<rparr>)
               \<lparr>txHash = Some ''sigA'', signature = None\<rparr> load_default)) = Some AttributeError \<and>
   seen_tx (fst (handle_new_payment (demo_env\<lparr>get_tx_detail := (\<lambda>s. JArr [])\<rparr>)
               \<lparr>txHash = Some ''sigA'', signature = None\<rparr> load_default)) = seen_tx load_default @ [''sigA''] \<and>
   handle_new_payment demo_env \<lparr>txHash = Some ''sigA'', signature = None\<rparr>
       (fst (handle_new_payment (demo_env\<lparr>get_tx_detail := (\<lambda>s. JArr [])\<rparr>)
               \<lparr>txHash = Some ''sigA'', signature = None\<rparr> load_default)) =
     (fst (handle_new_payment (demo_env\<lparr>get_tx_detail := (\<lambda>s. JArr [])\<rparr>)
               \<lparr>txHash = Some ''sigA'', signature = None\<rparr> load_default), [], None)"
proof -
  have h1: "tx_sig \<lparr>txHash = Some ''sigA'', signature = None\<rparr> = Some ''sigA''"
    by (simp add: tx_sig_def or_else_def)
  have h2: "''sigA'' \<noteq> []" by simp
  have h3: "''sigA'' \<notin> set (seen_tx load_default)" by (simp add: load_default_def)
  have e: "snd (snd (handle_new_payment (demo_env\<lparr>get_tx_detail := (\<lambda>s. JArr [])\<rparr>)
               \<lparr>txHash = Some ''sigA'', signature = None\<rparr> load_default)) = Some AttributeError"
    by (simp add: handle_new_payment_def h1 load_default_def Let_def payment_steps_def
        summed_lamports_def TRANSFER_KEYS_def get_def bind_err_def)
  show ?thesis
    using h1 h2 h3 e
      marked_seen_before_steps [OF h1 h2 h3, of "demo_env\<lparr>get_tx_detail := (\<lambda>s. JArr [])\<rparr>" demo_env]
    by blast
qed

section \<open>The join time stamp is written once\<close>

text \<open>
  C5. Once the record stored under a key has a \<open>join\<close> time stamp, no later message to the
  command handler (a \<open>/start\<close> with or without a wallet argument, or anything else), no
  later grant, and no later payment run changes it: each of them writes \<open>join\<close> only
  where the field is absent.
\<close>

theorem join_written_once:
  assumes "map_option join (map_of (users st) k) = Some (Some j)"
  shows "map_option join (map_of (users (fst (handle_message env msg st))) k) = Some (Some j) \<and>
         map_option join (map_of (users (fst (grant_access_to env username w sig st))) k) = Some (Some j) \<and>
         map_option join (map_of (users (fst (handle_new_payment env t st))) k) = Some (Some j)"
  using handle_message_keeps_join [OF assms] grant_keeps_join [OF assms]
    handle_new_payment_keeps_join [OF assms]
  by simp

theorem join_written_once_witness:
  "map_option join (map_of (users \<lparr>users = [(''@bob'', no_fields\<lparr>join := Some ''5''\<rparr>)],
       wallet_map = [], seen_tx = []\<rparr>) ''@bob'') = Some (Some ''5'') \<and>
   map_option join (map_of (users (fst (handle_message demo_env
       \<lparr>msg_text = ''/start WalletB'', from_username = Some ''bob'', from_id = Some 7\<rparr>
       \<lparr>users = [(''@bob'', no_fields\<lparr>join := Some ''5''\<rparr>)], wallet_map = [], seen_tx = []\<rparr>))) ''@bob'')
     = Some (Some ''5'') \<and>
   map_option join (map_of (users (fst (grant_access_to demo_env ''@bob'' ''WalletB'' ''sigA''
       \<lparr>users = [(''@bob'', no_fields\<lparr>join := Some ''5''\<rparr>)], wallet_map = [], seen_tx = []\<rparr>))) ''@bob'')
     = Some (Some ''5'')"
proof -
  have h: "map_option join (map_of (users \<lparr>users = [(''@bob'', no_fields\<lparr>join := Some ''5''\<rparr>)],
       wallet_map = [], seen_tx = []\<rparr>) ''@bob'') = Some (Some ''5'')"
    by simp
  show ?thesis
    using h join_written_once [OF h, of demo_env
        "\<lparr>msg_text = ''/start WalletB'', from_username = Some ''bob'', from_id = Some 7\<rparr>"
        "''@bob''" "''WalletB''" "''sigA''"]
    by simp
qed

section \<open>Registering another wallet\<close>

text \<open>
  C9. A \<open>/start\<close> message with a wallet argument from a sender whose record already has a
  \<open>join\<close> time stamp maps the new address to the sender's name, sets the record's linked
  wallet to the new address, keeps \<open>join\<close>, and leaves in place the entry of any other
  address \<open>old\<close> that was mapped to the same name.
\<close>

theorem wallet_remap:
  assumes "startswith (lower (strip (msg_text msg))) ''/start''"
    and "split (strip (msg_text msg)) = p0 # p1 # ps"
    and "map_option join (map_of (users st) (sender_name msg)) = Some (Some j)"
    and "map_of (wallet_map st) old = Some (sender_name msg)"
    and "old \<noteq> strip p1"
  shows "map_of (wallet_map (fst (handle_message env msg st))) (strip p1) = Some (sender_name msg) \<and>
         map_option wallet (map_of (users (fst (handle_message env msg st))) (sender_name msg)) =
           Some (Some (strip p1)) \<and>
         map_option join (map_of (users (fst (handle_message env msg st))) (sender_name msg)) =
           Some (Some j) \<and>
         map_of (wallet_map (fst (handle_message env msg st))) old = Some (sender_name msg)"
  using assms
  by (auto simp: handle_message_def Let_def start_with_wallet_def update_conv'
      setdefault_user_def setdefault_join_def)

theorem wallet_remap_witness:
  "startswith (lower (strip ''/start WalletB'')) ''/start'' \<and>
   split (strip ''/start WalletB'') = [''/start'', ''WalletB''] \<and>
   strip ''WalletB'' = ''WalletB'' \<and>
   map_of (wallet_map (fst (handle_message demo_env
       \<lparr>msg_text = ''/start WalletB'', from_username = Some ''bob'', from_id = Some 7\<rparr>
       \<lparr>users = [(''@bob'', \<lparr>join = Some ''5'', last_paid = None, wallet = Some ''WalletA'',
                              user_id = Some (Some 7)\<rparr>)],
        wallet_map = [(''WalletA'', ''@bob'')], seen_tx = []\<rparr>))) ''WalletB'' = Some ''@bob'' \<and>
   map_option wallet (map_of (users (fst (handle_message demo_env
       \<lparr>msg_text = ''/start WalletB'', from_username = Some ''bob'', from_id = Some 7\<rparr>
       \<lparr>users = [(''@bob'', \<lparr>join = Some ''5'', last_paid = None, wallet = Some ''WalletA'',
                              user_id = Some (Some 7)\<rparr>)],
        wallet_map = [(''WalletA'', ''@bob'')], seen_tx = []\<rparr>))) ''@bob'') = Some (Some ''WalletB'') \<and>
   map_option join (map_of (users (fst (handle_message demo_env
       \<lparr>msg_text = ''/start WalletB'', from_username = Some ''bob'', from_id = Some 7\<rparr>
       \<lparr>users = [(''@bob'', \<lparr>join = Some ''5'', last_paid = None, wallet = Some ''WalletA'',
                              user_id = Some (Some 7)\<rparr>)],
        wallet_map = [(''WalletA'', ''@bob'')], seen_tx = []\<rparr>))) ''@bob'') = Some (Some ''5'') \<and>
   map_of (wallet_map (fst (handle_message demo_env
       \<lparr>msg_text = ''/start WalletB'', from_username = Some ''bob'', from_id = Some 7\<rparr>
       \<lparr>users = [(''@bob'', \<lparr>join = Some ''5'', last_paid = None, wallet = Some ''WalletA'',
                              user_id = Some (Some 7)\<rparr>)],
        wallet_map = [(''WalletA'', ''@bob'')], seen_tx = []\<rparr>))) ''WalletA'' = Some ''@bob''"
proof -
  let ?msg = "\<lparr>msg_text = ''/start WalletB'', from_username = Some ''bob'', from_id = Some 7\<rparr>"
  let ?st = "\<lparr>users = [(''@bob'', \<lparr>join = Some ''5'', last_paid = None, wallet = Some ''WalletA'',
                              user_id = Some (Some 7)\<rparr>)],
        wallet_map = [(''WalletA'', ''@bob'')], seen_tx = []\<rparr>"
  have n: "sender_name ?msg = ''@bob''" by (simp add: sender_name_def)
  have s: "strip ''WalletB'' = ''WalletB''" by (simp add: strip_def is_space_def ord_def)
  have h1: "startswith (lower (strip (msg_text ?msg))) ''/start''"
    by (simp add: startswith_def lower_def strip_def is_space_def ord_def lower_char_def)
  have h2: "split (strip (msg_text ?msg)) = ''/start'' # ''WalletB'' # []"
    by (simp add: split_def strip_def is_space_def ord_def)
  have h3: "map_option join (map_of (users ?st) (sender_name ?msg)) = Some (Some ''5'')"
    by (simp add: n)
  have h4: "map_of (wallet_map ?st) ''WalletA'' = Some (sender_name ?msg)" by (simp add: n)
  have h5: "''WalletA'' \<noteq> strip ''WalletB''" by (simp add: s)
  show ?thesis
    using h1 h2 s wallet_remap [OF h1 h2 h3 h4 h5, of demo_env] by (simp add: n)
qed

section \<open>The key a grant is stored under\<close>

lemma ord_digit_char: "d < 10 \<Longrightarrow> ord (digit_char d) = 48 + d"
  by (simp add: ord_def digit_char_def)

lemma str_nat_digits:
  "str_nat n \<noteq> [] \<and> list_all (\<lambda>c. 48 \<le> ord c \<and> ord c \<le> 57) (str_nat n)"
proof (induction n rule: str_nat.induct)
  case (1 n)
  show ?case
  proof (cases "n < 10")
    case True
    then show ?thesis by (subst (1 2) str_nat.simps) (simp add: ord_digit_char)
  next
    case False
    then have "str_nat n = str_nat (n div 10) @ [digit_char (n mod 10)]"
      by (subst str_nat.simps) simp
    moreover have "ord (digit_char (n mod 10)) = 48 + n mod 10"
      by (rule ord_digit_char) simp
    ultimately show ?thesis using 1 False by simp
  qed
qed

lemma str_int_alnum: "0 \<le> n \<Longrightarrow> isalnum (str_int n)"
  using str_nat_digits [of "nat n"]
  by (auto simp: isalnum_def str_int_def is_alnum_char_def list_all_iff)

lemma str_int_no_at: "0 \<le> n \<Longrightarrow> \<not> startswith (str_int n) ''@''"
proof -
  assume "0 \<le> n"
  then have "str_int n = str_nat (nat n)" by (simp add: str_int_def)
  moreover obtain c cs where "str_nat (nat n) = c # cs" "48 \<le> ord c \<and> ord c \<le> 57"
    using str_nat_digits [of "nat n"] by (cases "str_nat (nat n)") auto
  ultimately show ?thesis by (auto simp: startswith_def ord_def)
qed

lemma grant_key_alnum: "\<not> startswith u ''@'' \<Longrightarrow> isalnum u \<Longrightarrow> grant_key u = ''@'' @ u"
  by (simp add: grant_key_def)

text \<open>
  C10. \<open>grant_access_to\<close> does not use the name found in the wallet map as the record key
  as it is: for a name \<open>u\<close> that does not start with \<open>@\<close> and is alphanumeric it writes
  the grant into the record under \<open>@\<close> followed by \<open>u\<close>, and leaves the record under \<open>u\<close>
  itself as it was; this holds in every store. A sender without a handle is registered
  under the decimal string of the numeric id, which is such a name (ids are not negative). So, in every store,
  after that sender's \<open>/start\<close> with a wallet the wallet is mapped to the digit string, and
  a grant for that name leaves the registration record untouched: its \<open>last_paid\<close> is
  what the record held before the registration (nothing, when it is new or was made
  by a bare \<open>/start\<close>), while the record under \<open>@\<close> and the digits gets \<open>last_paid\<close> and
  keeps the \<open>user_id\<close> it had before, which is none when it is created by the grant.
\<close>

theorem numeric_id_grant_makes_second_record:
  assumes "from_username msg = None \<or> from_username msg = Some []"
    and "from_id msg = Some n" and "0 \<le> n"
    and "startswith (lower (strip (msg_text msg))) ''/start''"
    and "split (strip (msg_text msg)) = p0 # p1 # ps"
  shows "(\<not> startswith u ''@'' \<and> isalnum u \<longrightarrow>
            map_of (users (fst (grant_access_to env' u w sig st'))) u = map_of (users st') u \<and>
            map_of (users (fst (grant_access_to env' u w sig st'))) (''@'' @ u) =
              Some ((setdefault_join (isoformat env' (utcnow env')) (setdefault_user (''@'' @ u) (users st')))
                      \<lparr>last_paid := Some (isoformat env' (utcnow env')), wallet := Some w\<rparr>)) \<and>
         sender_name msg = str_int n \<and>
         map_of (wallet_map (fst (handle_message env msg st))) (strip p1) = Some (str_int n) \<and>
         map_of (users (fst (handle_message env msg st))) (str_int n) =
           Some ((setdefault_join (isoformat env (utcnow env)) (setdefault_user (str_int n) (users st)))
                   \<lparr>user_id := Some (Some n), wallet := Some (strip p1)\<rparr>) \<and>
         map_of (users (fst (grant_access_to env' (str_int n) (strip p1) sig
                              (fst (handle_message env msg st))))) (str_int n) =
           map_of (users (fst (handle_message env msg st))) (str_int n) \<and>
         map_option last_paid (map_of (users (fst (grant_access_to env' (str_int n) (strip p1) sig
                              (fst (handle_message env msg st))))) (str_int n)) =
           Some (last_paid (setdefault_user (str_int n) (users st))) \<and>
         map_option last_paid (map_of (users (fst (grant_access_to env' (str_int n) (strip p1) sig
                              (fst (handle_message env msg st))))) (''@'' @ str_int n)) =
           Some (Some (isoformat env' (utcnow env'))) \<and>
         map_option user_id (map_of (users (fst (grant_access_to env' (str_int n) (strip p1) sig
                              (fst (handle_message env msg st))))) (''@'' @ str_int n)) =
           Some (user_id (setdefault_user (''@'' @ str_int n) (users st))) \<and>
         (last_paid (setdefault_user (str_int n) (users st)) = None \<longrightarrow>
            map_option last_paid (map_of (users (fst (grant_access_to env' (str_int n) (strip p1) sig
                              (fst (handle_message env msg st))))) (str_int n)) = Some None) \<and>
         (user_id (setdefault_user (''@'' @ str_int n) (users st)) = None \<longrightarrow>
            map_option user_id (map_of (users (fst (grant_access_to env' (str_int n) (strip p1) sig
                              (fst (handle_message env msg st))))) (''@'' @ str_int n)) = Some None)"
proof -
  have g: "\<not> startswith v ''@'' \<and> isalnum v \<longrightarrow>
            map_of (users (fst (grant_access_to e v x sg s))) v = map_of (users s) v \<and>
            map_of (users (fst (grant_access_to e v x sg s))) (''@'' @ v) =
              Some ((setdefault_join (isoformat e (utcnow e)) (setdefault_user (''@'' @ v) (users s)))
                      \<lparr>last_paid := Some (isoformat e (utcnow e)), wallet := Some x\<rparr>)"
    for v e x sg s
    by (simp add: grant_key_alnum grant_access_to_def Let_def update_conv')
  have a: "\<not> startswith (str_int n) ''@'' \<and> isalnum (str_int n)"
    using assms(3) by (simp add: str_int_alnum str_int_no_at)
  have nm: "sender_name msg = str_int n"
    using assms(1,2) by (auto simp: sender_name_def str_opt_int_def)
  have hm: "fst (handle_message env msg st) =
      st\<lparr>wallet_map := AList.update (strip p1) (str_int n) (wallet_map st),
         users := AList.update (str_int n)
           ((setdefault_join (isoformat env (utcnow env)) (setdefault_user (str_int n) (users st)))
              \<lparr>user_id := Some (Some n), wallet := Some (strip p1)\<rparr>) (users st)\<rparr>"
    using assms(2,4,5)
    by (simp add: handle_message_def Let_def nm start_with_wallet_def)
  have lp: "last_paid (setdefault_join z r) = last_paid r" for z r
    by (simp add: setdefault_join_def)
  have ui: "user_id (setdefault_join z r) = user_id r" for z r
    by (simp add: setdefault_join_def)
  have w: "map_of (wallet_map (fst (handle_message env msg st))) (strip p1) = Some (str_int n)"
    by (simp add: hm update_conv')
  have r1: "map_of (users (fst (handle_message env msg st))) (str_int n) =
           Some ((setdefault_join (isoformat env (utcnow env)) (setdefault_user (str_int n) (users st)))
                   \<lparr>user_id := Some (Some n), wallet := Some (strip p1)\<rparr>)"
    by (simp add: hm update_conv')
  have r0: "setdefault_user (''@'' @ str_int n) (users (fst (handle_message env msg st))) =
           setdefault_user (''@'' @ str_int n) (users st)"
    by (simp add: hm update_conv' setdefault_user_def)
  note g2 = g [of "str_int n" env' "strip p1" sig "fst (handle_message env msg st)", rule_format, OF a]
  have k: "map_of (users (fst (grant_access_to env' (str_int n) (strip p1) sig
                              (fst (handle_message env msg st))))) (str_int n) =
           map_of (users (fst (handle_message env msg st))) (str_int n)"
    using g2 by simp
  have l1: "map_option last_paid (map_of (users (fst (grant_access_to env' (str_int n) (strip p1) sig
                              (fst (handle_message env msg st))))) (str_int n)) =
           Some (last_paid (setdefault_user (str_int n) (users st)))"
    by (simp add: k r1 lp)
  have l2: "map_option last_paid (map_of (users (fst (grant_access_to env' (str_int n) (strip p1) sig
                              (fst (handle_message env msg st))))) (''@'' @ str_int n)) =
           Some (Some (isoformat env' (utcnow env')))"
    using g2 by simp
  have l3: "map_option user_id (map_of (users (fst (grant_access_to env' (str_int n) (strip p1) sig
                              (fst (handle_message env msg st))))) (''@'' @ str_int n)) =
           Some (user_id (setdefault_user (''@'' @ str_int n) (users st)))"
    using g2 r0 by (simp add: ui)
  have m1: "last_paid (setdefault_user (str_int n) (users st)) = None \<longrightarrow>
            map_option last_paid (map_of (users (fst (grant_access_to env' (str_int n) (strip p1) sig
                              (fst (handle_message env msg st))))) (str_int n)) = Some None"
    by (rule impI) (simp only: l1)
  have m3: "user_id (setdefault_user (''@'' @ str_int n) (users st)) = None \<longrightarrow>
            map_option user_id (map_of (users (fst (grant_access_to env' (str_int n) (strip p1) sig
                              (fst (handle_message env msg st))))) (''@'' @ str_int n)) = Some None"
    by (rule impI) (simp only: l3)
  show ?thesis
    using g [of u env' w sig st'] nm w r1 k l1 l2 l3 m1 m3 by blast
qed

theorem numeric_id_grant_makes_second_record_witness:
  "(from_username \<lparr>msg_text = ''/start WalletA'', from_username = None, from_id = Some 123\<rparr> = None \<or>
      from_username \<lparr>msg_text = ''/start WalletA'', from_username = None, from_id = Some 123\<rparr> = Some []) \<and>
   from_id \<lparr>msg_text = ''/start WalletA'', from_username = None, from_id = Some 123\<rparr> = Some 123 \<and> (0::int) \<le> 123 \<and>
   startswith (lower (strip (msg_text \<lparr>msg_text = ''/start WalletA'', from_username = None, from_id = Some 123\<rparr>))) ''/start'' \<and>
   split (strip (msg_text \<lparr>msg_text = ''/start WalletA'', from_username = None, from_id = Some 123\<rparr>)) = ''/start'' # ''WalletA'' # [] \<and>
   \<not> startswith ''123'' ''@'' \<and> isalnum ''123'' \<and> str_int 123 = ''123'' \<and>
   last_paid (setdefault_user (str_int 123) (users \<lparr>users = [(''123'', \<lparr>join = Some ''900'', last_paid = None, wallet = None, user_id = Some (Some 123)\<rparr>)], wallet_map = [], seen_tx = []\<rparr>)) = None \<and>
   user_id (setdefault_user (''@'' @ str_int 123) (users \<lparr>users = [(''123'', \<lparr>join = Some ''900'', last_paid = None, wallet = None, user_id = Some (Some 123)\<rparr>)], wallet_map = [], seen_tx = []\<rparr>)) = None \<and>
   (            map_of (users (fst (grant_access_to (demo_env\<lparr>utcnow := 2000\<rparr>) ''123'' ''WalletA'' ''sigA'' \<lparr>users = [(''123'', \<lparr>join = Some ''900'', last_paid = None, wallet = None, user_id = Some (Some 123)\<rparr>)], wallet_map = [], seen_tx = []\<rparr>))) ''123'' = map_of (users \<lparr>users = [(''123'', \<lparr>join = Some ''900'', last_paid = None, wallet = None, user_id = Some (Some 123)\<rparr>)], wallet_map = [], seen_tx = []\<rparr>) ''123'' \<and>
      map_of (users (fst (grant_access_to (demo_env\<lparr>utcnow := 2000\<rparr>) ''123'' ''WalletA'' ''sigA'' \<lparr>users = [(''123'', \<lparr>join = Some ''900'', last_paid = None, wallet = None, user_id = Some (Some 123)\<rparr>)], wallet_map = [], seen_tx = []\<rparr>))) (''@'' @ ''123'') =
        Some ((setdefault_join (isoformat (demo_env\<lparr>utcnow := 2000\<rparr>) (utcnow (demo_env\<lparr>utcnow := 2000\<rparr>))) (setdefault_user (''@'' @ ''123'') (users \<lparr>users = [(''123'', \<lparr>join = Some ''900'', last_paid = None, wallet = None, user_id = Some (Some 123)\<rparr>)], wallet_map = [], seen_tx = []\<rparr>)))
                \<lparr>last_paid := Some (isoformat (demo_env\<lparr>utcnow := 2000\<rparr>) (utcnow (demo_env\<lparr>utcnow := 2000\<rparr>))), wallet := Some ''WalletA''\<rparr>)) \<and>
   sender_name \<lparr>msg_text = ''/start WalletA'', from_username = None, from_id = Some 123\<rparr> = str_int 123 \<and>
   map_of (wallet_map (fst (handle_message demo_env \<lparr>msg_text = ''/start WalletA'', from_username = None, from_id = Some 123\<rparr> \<lparr>users = [(''123'', \<lparr>join = Some ''900'', last_paid = None, wallet = None, user_id = Some (Some 123)\<rparr>)], wallet_map = [], seen_tx = []\<rparr>))) (strip ''WalletA'') = Some (str_int 123) \<and>
   map_of (users (fst (handle_message demo_env \<lparr>msg_text = ''/start WalletA'', from_username = None, from_id = Some 123\<rparr> \<lparr>users = [(''123'', \<lparr>join = Some ''900'', last_paid = None, wallet = None, user_id = Some (Some 123)\<rparr>)], wallet_map = [], seen_tx = []\<rparr>))) (str_int 123) =
     Some ((setdefault_join (isoformat demo_env (utcnow demo_env)) (setdefault_user (str_int 123) (users \<lparr>users = [(''123'', \<lparr>join = Some ''900'', last_paid = None, wallet = None, user_id = Some (Some 123)\<rparr>)], wallet_map = [], seen_tx = []\<rparr>)))
             \<lparr>user_id := Some (Some 123), wallet := Some (strip ''WalletA'')\<rparr>) \<and>
   map_of (users (fst (grant_access_to (demo_env\<lparr>utcnow := 2000\<rparr>) (str_int 123) (strip ''WalletA'') ''sigA''
                        (fst (handle_message demo_env \<lparr>msg_text = ''/start WalletA'', from_username = None, from_id = Some 123\<rparr> \<lparr>users = [(''123'', \<lparr>join = Some ''900'', last_paid = None, wallet = None, user_id = Some (Some 123)\<rparr>)], wallet_map = [], seen_tx = []\<rparr>))))) (str_int 123) =
     map_of (users (fst (handle_message demo_env \<lparr>msg_text = ''/start WalletA'', from_username = None, from_id = Some 123\<rparr> \<lparr>users = [(''123'', \<lparr>join = Some ''900'', last_paid = None, wallet = None, user_id = Some (Some 123)\<rparr>)], wallet_map = [], seen_tx = []\<rparr>))) (str_int 123) \<and>
   map_option last_paid (map_of (users (fst (grant_access_to (demo_env\<lparr>utcnow := 2000\<rparr>) (str_int 123) (strip ''WalletA'') ''sigA''
                        (fst (handle_message demo_env \<lparr>msg_text = ''/start WalletA'', from_username = None, from_id = Some 123\<rparr> \<lparr>users = [(''123'', \<lparr>join = Some ''900'', last_paid = None, wallet = None, user_id = Some (Some 123)\<rparr>)], wallet_map = [], seen_tx = []\<rparr>))))) (str_int 123)) =
     Some (last_paid (setdefault_user (str_int 123) (users \<lparr>users = [(''123'', \<lparr>join = Some ''900'', last_paid = None, wallet = None, user_id = Some (Some 123)\<rparr>)], wallet_map = [], seen_tx = []\<rparr>))) \<and>
   map_option last_paid (map_of (users (fst (grant_access_to (demo_env\<lparr>utcnow := 2000\<rparr>) (str_int 123) (strip ''WalletA'') ''sigA''
                        (fst (handle_message demo_env \<lparr>msg_text = ''/start WalletA'', from_username = None, from_id = Some 123\<rparr> \<lparr>users = [(''123'', \<lparr>join = Some ''900'', last_paid = None, wallet = None, user_id = Some (Some 123)\<rparr>)], wallet_map = [], seen_tx = []\<rparr>))))) (''@'' @ str_int 123)) =
     Some (Some (isoformat (demo_env\<lparr>utcnow := 2000\<rparr>) (utcnow (demo_env\<lparr>utcnow := 2000\<rparr>)))) \<and>
   map_option user_id (map_of (users (fst (grant_access_to (demo_env\<lparr>utcnow := 2000\<rparr>) (str_int 123) (strip ''WalletA'') ''sigA''
                        (fst (handle_message demo_env \<lparr>msg_text = ''/start WalletA'', from_username = None, from_id = Some 123\<rparr> \<lparr>users = [(''123'', \<lparr>join = Some ''900'', last_paid = None, wallet = None, user_id = Some (Some 123)\<rparr>)], wallet_map = [], seen_tx = []\<rparr>))))) (''@'' @ str_int 123)) =
     Some (user_id (setdefault_user (''@'' @ str_int 123) (users \<lparr>users = [(''123'', \<lparr>join = Some ''900'', last_paid = None, wallet = None, user_id = Some (Some 123)\<rparr>)], wallet_map = [], seen_tx = []\<rparr>))) \<and>
   map_option last_paid (map_of (users (fst (grant_access_to (demo_env\<lparr>utcnow := 2000\<rparr>) (str_int 123) (strip ''WalletA'') ''sigA''
                              (fst (handle_message demo_env \<lparr>msg_text = ''/start WalletA'', from_username = None, from_id = Some 123\<rparr> \<lparr>users = [(''123'', \<lparr>join = Some ''900'', last_paid = None, wallet = None, user_id = Some (Some 123)\<rparr>)], wallet_map = [], seen_tx = []\<rparr>))))) (str_int 123)) = Some None \<and>
   map_option user_id (map_of (users (fst (grant_access_to (demo_env\<lparr>utcnow := 2000\<rparr>) (str_int 123) (strip ''WalletA'') ''sigA''
                              (fst (handle_message demo_env \<lparr>msg_text = ''/start WalletA'', from_username = None, from_id = Some 123\<rparr> \<lparr>users = [(''123'', \<lparr>join = Some ''900'', last_paid = None, wallet = None, user_id = Some (Some 123)\<rparr>)], wallet_map = [], seen_tx = []\<rparr>))))) (''@'' @ str_int 123)) = Some None"
proof -
  have h1: "from_username \<lparr>msg_text = ''/start WalletA'', from_username = None, from_id = Some 123\<rparr> = None \<or>
      from_username \<lparr>msg_text = ''/start WalletA'', from_username = None, from_id = Some 123\<rparr> = Some []" by simp
  have h2: "from_id \<lparr>msg_text = ''/start WalletA'', from_username = None, from_id = Some 123\<rparr> = Some 123" by simp
  have h3: "(0::int) \<le> 123" by simp
  have h4: "startswith (lower (strip (msg_text \<lparr>msg_text = ''/start WalletA'', from_username = None, from_id = Some 123\<rparr>))) ''/start''"
    by (simp add: startswith_def lower_def strip_def is_space_def ord_def lower_char_def)
  have h5: "split (strip (msg_text \<lparr>msg_text = ''/start WalletA'', from_username = None, from_id = Some 123\<rparr>)) = ''/start'' # ''WalletA'' # []"
    by (simp add: split_def strip_def is_space_def ord_def)
  have d: "str_int 123 = ''123''" by code_simp
  have a: "\<not> startswith ''123'' ''@''" by (simp add: startswith_def)
  have b: "isalnum ''123''" by (simp add: isalnum_def is_alnum_char_def ord_def)
  have c: "last_paid (setdefault_user (str_int 123) (users \<lparr>users = [(''123'', \<lparr>join = Some ''900'', last_paid = None, wallet = None, user_id = Some (Some 123)\<rparr>)], wallet_map = [], seen_tx = []\<rparr>)) = None"
    by (simp add: d setdefault_user_def)
  have e: "user_id (setdefault_user (''@'' @ str_int 123) (users \<lparr>users = [(''123'', \<lparr>join = Some ''900'', last_paid = None, wallet = None, user_id = Some (Some 123)\<rparr>)], wallet_map = [], seen_tx = []\<rparr>)) = None"
    by (simp add: d setdefault_user_def no_fields_def)
  show ?thesis
    using h1 h2 h3 h4 h5 a b c d e
      numeric_id_grant_makes_second_record [OF h1 h2 h3 h4 h5,
        where u = "''123''" and env' = "demo_env\<lparr>utcnow := 2000\<rparr>" and w = "''WalletA''"
          and sig = "''sigA''" and st' = "\<lparr>users = [(''123'', \<lparr>join = Some ''900'', last_paid = None, wallet = None, user_id = Some (Some 123)\<rparr>)], wallet_map = [], seen_tx = []\<rparr>"
          and env = demo_env and st = "\<lparr>users = [(''123'', \<lparr>join = Some ''900'', last_paid = None, wallet = None, user_id = Some (Some 123)\<rparr>)], wallet_map = [], seen_tx = []\<rparr>"]
    by blast
qed

section \<open>The expiry sweep\<close>

lemma users_drop_user: "map_of (users (drop_user u st)) k = (if k = u then None else map_of (users st) k)"
  by (simp add: drop_user_def delete_conv')

lemma wallets_drop_user:
  "k \<in> snd ` set (wallet_map (drop_user u st)) \<longleftrightarrow> k \<in> snd ` set (wallet_map st) \<and> k \<noteq> u"
  by (auto simp: drop_user_def)

lemma last_active_user_id [simp]: "last_active env (info\<lparr>user_id := x\<rparr>) = last_active env info"
  by (simp add: last_active_def split: option.splits)

lemma last_active_env [simp]: "last_active (env\<lparr>post_ok := p\<rparr>) info = last_active env info"
  by (simp add: last_active_def split: option.splits)

lemma expiry_step_cases:
  "fst (expiry_step env clock rec acc) = fst acc \<or>
   (\<not> is_whitelisted (fst rec) \<and> fst (expiry_step env clock rec acc) = drop_user (fst rec) (fst acc))"
  by (simp add: expiry_step_def Let_def split: option.splits)

lemma expiry_step_expired:
  assumes "\<not> is_whitelisted uname" and "last_active env info = Some t" and "clock uname - t > TTL"
  shows "fst (expiry_step env clock (uname, info) acc) = drop_user uname (fst acc)"
    and "snd (snd (expiry_step env clock (uname, info) acc)) = True"
  using assms by (simp_all add: expiry_step_def Let_def)

lemma expiry_step_gone:
  assumes "map_of (users (fst acc)) k = None \<and> k \<notin> snd ` set (wallet_map (fst acc))"
  shows "map_of (users (fst (expiry_step env clock rec acc))) k = None \<and>
         k \<notin> snd ` set (wallet_map (fst (expiry_step env clock rec acc)))"
proof -
  have "map_of (users (drop_user u (fst acc))) k = None \<and>
        k \<notin> snd ` set (wallet_map (drop_user u (fst acc)))" for u
    using assms by (simp add: users_drop_user wallets_drop_user)
  then show ?thesis
    using assms expiry_step_cases [of env clock rec acc] by metis
qed

lemma sweep_loop_gone:
  assumes "map_of (users (fst acc)) k = None \<and> k \<notin> snd ` set (wallet_map (fst acc))"
  shows "map_of (users (fst (foldl (\<lambda>a r. expiry_step env clock r a) acc recs))) k = None \<and>
         k \<notin> snd ` set (wallet_map (fst (foldl (\<lambda>a r. expiry_step env clock r a) acc recs)))"
  using assms
proof (induction recs arbitrary: acc)
  case Nil
  then show ?case by simp
next
  case (Cons r recs)
  show ?case
    using Cons.IH [OF expiry_step_gone [OF Cons.prems]] by simp
qed

lemma sweep_loop_removes:
  assumes "(uname, info) \<in> set recs" and "\<not> is_whitelisted uname"
    and "last_active env info = Some t" and "clock uname - t > TTL"
  shows "map_of (users (fst (foldl (\<lambda>a r. expiry_step env clock r a) acc recs))) uname = None \<and>
         uname \<notin> snd ` set (wallet_map (fst (foldl (\<lambda>a r. expiry_step env clock r a) acc recs)))"
  using assms(1)
proof (induction recs arbitrary: acc)
  case Nil
  then show ?case by simp
next
  case (Cons r recs)
  show ?case
  proof (cases "r = (uname, info)")
    case True
    have "fst (expiry_step env clock r acc) = drop_user uname (fst acc)"
      using True assms(2,3,4)
        expiry_step_expired(1) [where uname = uname and env = env and info = info and t = t
          and clock = clock and acc = acc]
      by simp
    then have "map_of (users (fst (expiry_step env clock r acc))) uname = None \<and>
        uname \<notin> snd ` set (wallet_map (fst (expiry_step env clock r acc)))"
      by (simp add: users_drop_user wallets_drop_user)
    from sweep_loop_gone [OF this] show ?thesis by simp
  next
    case False
    then have "(uname, info) \<in> set recs" using Cons.prems by simp
    from Cons.IH [OF this] show ?thesis by simp
  qed
qed

lemma sweep_loop_whitelisted:
  assumes "is_whitelisted k"
  shows "map_of (users (fst (foldl (\<lambda>a r. expiry_step env clock r a) acc recs))) k =
         map_of (users (fst acc)) k"
proof (induction recs arbitrary: acc)
  case Nil
  then show ?case by simp
next
  case (Cons r recs)
  have "map_of (users (fst (expiry_step env clock r acc))) k = map_of (users (fst acc)) k"
    using assms expiry_step_cases [of env clock r acc] by (auto simp: users_drop_user)
  then show ?case using Cons.IH [of "expiry_step env clock r acc"] by simp
qed

lemma expiry_step_store_indep:
  assumes "fst acc = fst acc'" and "snd (snd acc) = snd (snd acc')"
  shows "fst (expiry_step (env\<lparr>post_ok := p\<rparr>) clock rec acc) = fst (expiry_step env clock rec acc') \<and>
         snd (snd (expiry_step (env\<lparr>post_ok := p\<rparr>) clock rec acc)) =
           snd (snd (expiry_step env clock rec acc'))"
  using assms by (simp add: expiry_step_def Let_def split: option.splits)

lemma sweep_loop_store_indep:
  assumes "fst acc = fst acc'" and "snd (snd acc) = snd (snd acc')"
  shows "fst (foldl (\<lambda>a r. expiry_step (env\<lparr>post_ok := p\<rparr>) clock r a) acc recs) =
           fst (foldl (\<lambda>a r. expiry_step env clock r a) acc' recs) \<and>
         snd (snd (foldl (\<lambda>a r. expiry_step (env\<lparr>post_ok := p\<rparr>) clock r a) acc recs)) =
           snd (snd (foldl (\<lambda>a r. expiry_step env clock r a) acc' recs))"
  using assms
proof (induction recs arbitrary: acc acc')
  case Nil
  then show ?case by simp
next
  case (Cons r recs)
  have s: "fst (expiry_step (env\<lparr>post_ok := p\<rparr>) clock r acc) = fst (expiry_step env clock r acc') \<and>
      snd (snd (expiry_step (env\<lparr>post_ok := p\<rparr>) clock r acc)) = snd (snd (expiry_step env clock r acc'))"
    by (rule expiry_step_store_indep [OF Cons.prems])
  show ?case
    using Cons.IH [where acc = "expiry_step (env\<lparr>post_ok := p\<rparr>) clock r acc"
        and acc' = "expiry_step env clock r acc'"] s
    by simp
qed

text \<open>
  C2. Let a sweep run with \<open>clock uname\<close> the time read while the record of \<open>uname\<close> is
  examined. If \<open>uname\<close> is not whitelisted and has a record whose last activity
  (\<open>last_paid\<close>, or \<open>join\<close> when that is missing) lies more than 30 days before that time,
  then after the sweep \<open>uname\<close> has no record and no wallet is mapped to \<open>uname\<close>. If
  \<open>uname\<close> is whitelisted, the sweep leaves its record as it was, whatever the times.
\<close>

theorem sweep_removes_expired_keeps_whitelisted:
  "((uname, info) \<in> set (users st) \<and> \<not> is_whitelisted uname \<and>
      last_active env info = Some t \<and> clock uname - t > TTL \<longrightarrow>
      map_of (users (fst (daily_expiry_check env clock st))) uname = None \<and>
      uname \<notin> snd ` set (wallet_map (fst (daily_expiry_check env clock st)))) \<and>
   (is_whitelisted uname \<longrightarrow>
      map_of (users (fst (daily_expiry_check env clock st))) uname = map_of (users st) uname)"
proof (intro conjI impI)
  assume a: "(uname, info) \<in> set (users st) \<and> \<not> is_whitelisted uname \<and>
      last_active env info = Some t \<and> clock uname - t > TTL"
  then have "map_of (users (fst (foldl (\<lambda>a r. expiry_step env clock r a) (st, [], False) (users st)))) uname = None \<and>
         uname \<notin> snd ` set (wallet_map (fst (foldl (\<lambda>a r. expiry_step env clock r a) (st, [], False) (users st))))"
    using sweep_loop_removes [where uname = uname and info = info and recs = "users st"
        and env = env and t = t and clock = clock and acc = "(st, [], False)"]
    by blast
  then show "map_of (users (fst (daily_expiry_check env clock st))) uname = None"
    and "uname \<notin> snd ` set (wallet_map (fst (daily_expiry_check env clock st)))"
    by (simp_all add: daily_expiry_check_def Let_def)
next
  assume "is_whitelisted uname"
  from sweep_loop_whitelisted [OF this, where env = env and clock = clock
      and acc = "(st, [], False)" and recs = "users st"]
  show "map_of (users (fst (daily_expiry_check env clock st))) uname = map_of (users st) uname"
    by (simp add: daily_expiry_check_def Let_def)
qed

theorem sweep_removes_expired_keeps_whitelisted_witness:
  "(''@bob'', \<lparr>join = Some ''5'', last_paid = Some ''7'', wallet = Some ''w1'', user_id = Some (Some 5)\<rparr>)
     \<in> set (users \<lparr>users = [(''@bob'', \<lparr>join = Some ''5'', last_paid = Some ''7'', wallet = Some ''w1'',
                                         user_id = Some (Some 5)\<rparr>),
                              (''@arc'', \<lparr>join = Some ''5'', last_paid = Some ''7'', wallet = Some ''w2'',
                                         user_id = None\<rparr>)],
                    wallet_map = [(''w1'', ''@bob''), (''w2'', ''@arc'')], seen_tx = []\<rparr>) \<and>
   \<not> is_whitelisted ''@bob'' \<and> is_whitelisted ''@arc'' \<and>
   last_active demo_env \<lparr>join = Some ''5'', last_paid = Some ''7'', wallet = Some ''w1'',
                          user_id = Some (Some 5)\<rparr> = Some 7 \<and>
   (TTL + 8) - 7 > TTL \<and>
   map_of (users (fst (daily_expiry_check demo_env (\<lambda>u. TTL + 8)
       \<lparr>users = [(''@bob'', \<lparr>join = Some ''5'', last_paid = Some ''7'', wallet = Some ''w1'',
                              user_id = Some (Some 5)\<rparr>),
                   (''@arc'', \<lparr>join = Some ''5'', last_paid = Some ''7'', wallet = Some ''w2'',
                              user_id = None\<rparr>)],
         wallet_map = [(''w1'', ''@bob''), (''w2'', ''@arc'')], seen_tx = []\<rparr>))) ''@bob'' = None \<and>
   ''@bob'' \<notin> snd ` set (wallet_map (fst (daily_expiry_check demo_env (\<lambda>u. TTL + 8)
       \<lparr>users = [(''@bob'', \<lparr>join = Some ''5'', last_paid = Some ''7'', wallet = Some ''w1'',
                              user_id = Some (Some 5)\<rparr>),
                   (''@arc'', \<lparr>join = Some ''5'', last_paid = Some ''7'', wallet = Some ''w2'',
                              user_id = None\<rparr>)],
         wallet_map = [(''w1'', ''@bob''), (''w2'', ''@arc'')], seen_tx = []\<rparr>))) \<and>
   map_of (users (fst (daily_expiry_check demo_env (\<lambda>u. TTL + 8)
       \<lparr>users = [(''@bob'', \<lparr>join = Some ''5'', last_paid = Some ''7'', wallet = Some ''w1'',
                              user_id = Some (Some 5)\<rparr>),
                   (''@arc'', \<lparr>join = Some ''5'', last_paid = Some ''7'', wallet = Some ''w2'',
                              user_id = None\<rparr>)],
         wallet_map = [(''w1'', ''@bob''), (''w2'', ''@arc'')], seen_tx = []\<rparr>))) ''@arc'' =
     Some \<lparr>join = Some ''5'', last_paid = Some ''7'', wallet = Some ''w2'', user_id = None\<rparr>"
proof -
  let ?bob = "\<lparr>join = Some ''5'', last_paid = Some ''7'', wallet = Some ''w1'', user_id = Some (Some 5)\<rparr>"
  let ?st = "\<lparr>users = [(''@bob'', ?bob),
                   (''@arc'', \<lparr>join = Some ''5'', last_paid = Some ''7'', wallet = Some ''w2'',
                              user_id = None\<rparr>)],
         wallet_map = [(''w1'', ''@bob''), (''w2'', ''@arc'')], seen_tx = []\<rparr>"
  have h1: "(''@bob'', ?bob) \<in> set (users ?st)" by simp
  have h2: "\<not> is_whitelisted ''@bob''" by code_simp
  have h3: "is_whitelisted ''@arc''" by code_simp
  have p: "parse_digits ''7'' = Some 7" by code_simp
  have h4: "last_active demo_env ?bob = Some 7"
    by (simp add: last_active_def or_else_def demo_env_def p)
  have h5: "(TTL + 8) - 7 > TTL" by simp
  show ?thesis
    using h1 h2 h3 h4 h5
      sweep_removes_expired_keeps_whitelisted [where uname = "''@bob''" and info = ?bob and st = ?st
        and env = demo_env and t = 7 and clock = "\<lambda>u. TTL + 8"]
      sweep_removes_expired_keeps_whitelisted [where uname = "''@arc''" and info = ?bob and st = ?st
        and env = demo_env and t = 7 and clock = "\<lambda>u. TTL + 8"]
    by simp
qed

text \<open>
  C6. When the sweep reaches the record of a name that is not whitelisted and has
  expired, then after that step the name has no record and no wallet is mapped to it,
  every other name keeps its record and its wallet entries, and the change flag is set.
  This holds whatever the outcome \<open>p\<close> of the calls to the messaging platform and
  whatever \<open>user_id\<close> the record holds, including none. The store a whole sweep ends with
  does not depend on the outcome of those calls either.
\<close>

theorem revoke_deletes_unconditionally:
  assumes "\<not> is_whitelisted uname" and "last_active env info = Some t" and "clock uname - t > TTL"
  shows "map_of (users (fst (expiry_step (env\<lparr>post_ok := p\<rparr>) clock (uname, info\<lparr>user_id := x\<rparr>) (st, out, ch)))) uname = None \<and>
         uname \<notin> snd ` set (wallet_map (fst (expiry_step (env\<lparr>post_ok := p\<rparr>) clock (uname, info\<lparr>user_id := x\<rparr>) (st, out, ch)))) \<and>
         (k \<noteq> uname \<longrightarrow>
            map_of (users (fst (expiry_step (env\<lparr>post_ok := p\<rparr>) clock (uname, info\<lparr>user_id := x\<rparr>) (st, out, ch)))) k = map_of (users st) k \<and>
            ((a, k) \<in> set (wallet_map (fst (expiry_step (env\<lparr>post_ok := p\<rparr>) clock (uname, info\<lparr>user_id := x\<rparr>) (st, out, ch)))) \<longleftrightarrow> (a, k) \<in> set (wallet_map st))) \<and>
         seen_tx (fst (expiry_step (env\<lparr>post_ok := p\<rparr>) clock (uname, info\<lparr>user_id := x\<rparr>) (st, out, ch))) = seen_tx st \<and>
         snd (snd (expiry_step (env\<lparr>post_ok := p\<rparr>) clock (uname, info\<lparr>user_id := x\<rparr>) (st, out, ch))) = True \<and>
         fst (daily_expiry_check (env\<lparr>post_ok := p\<rparr>) clock st0) = fst (daily_expiry_check env clock st0)"
proof -
  have l: "last_active (env\<lparr>post_ok := p\<rparr>) (info\<lparr>user_id := x\<rparr>) = Some t"
    using assms(2) by simp
  have s: "fst (expiry_step (env\<lparr>post_ok := p\<rparr>) clock (uname, info\<lparr>user_id := x\<rparr>) (st, out, ch)) = drop_user uname st"
    and f: "snd (snd (expiry_step (env\<lparr>post_ok := p\<rparr>) clock (uname, info\<lparr>user_id := x\<rparr>) (st, out, ch))) = True"
    using assms(1,3) l
      expiry_step_expired [where uname = uname and env = "env\<lparr>post_ok := p\<rparr>"
        and info = "info\<lparr>user_id := x\<rparr>" and t = t and clock = clock and acc = "(st, out, ch)"]
    by simp_all
  have w: "uname \<notin> snd ` set (wallet_map (drop_user uname st))"
    by (simp add: wallets_drop_user)
  have o: "k \<noteq> uname \<longrightarrow>
      ((a, k) \<in> set (wallet_map (drop_user uname st)) \<longleftrightarrow> (a, k) \<in> set (wallet_map st))"
    by (auto simp: drop_user_def)
  have q: "seen_tx (drop_user uname st) = seen_tx st"
    by (simp add: drop_user_def)
  have d: "fst (daily_expiry_check (env\<lparr>post_ok := p\<rparr>) clock st0) = fst (daily_expiry_check env clock st0)"
    using sweep_loop_store_indep [where acc = "(st0, [], False)" and acc' = "(st0, [], False)"
        and env = env and p = p and clock = clock and recs = "users st0"]
    by (simp add: daily_expiry_check_def Let_def)
  show ?thesis
    unfolding s f using w o q d by (simp add: users_drop_user)
qed

theorem revoke_deletes_unconditionally_witness:
  "\<not> is_whitelisted ''@bob'' \<and>
   last_active demo_env \<lparr>join = Some ''5'', last_paid = Some ''7'', wallet = Some ''w1'', user_id = Some (Some 5)\<rparr> = Some 7 \<and>
   (\<lambda>u. TTL + 8) ''@bob'' - 7 > TTL \<and> ''@amy'' \<noteq> ''@bob'' \<and>
   (''w2'', ''@amy'') \<in> set (wallet_map \<lparr>users = [(''@bob'', \<lparr>join = Some ''5'', last_paid = Some ''7'', wallet = Some ''w1'', user_id = Some (Some 5)\<rparr>), (''@amy'', \<lparr>join = Some ''5'', last_paid = None, wallet = Some ''w2'', user_id = None\<rparr>)], wallet_map = [(''w1'', ''@bob''), (''w2'', ''@amy'')], seen_tx = [''s'']\<rparr>) \<and>
   map_of (users (fst (expiry_step (demo_env\<lparr>post_ok := (\<lambda>r. False)\<rparr>) (\<lambda>u. TTL + 8) (''@bob'', \<lparr>join = Some ''5'', last_paid = Some ''7'', wallet = Some ''w1'', user_id = Some (Some 5)\<rparr>\<lparr>user_id := None\<rparr>) (\<lparr>users = [(''@bob'', \<lparr>join = Some ''5'', last_paid = Some ''7'', wallet = Some ''w1'', user_id = Some (Some 5)\<rparr>), (''@amy'', \<lparr>join = Some ''5'', last_paid = None, wallet = Some ''w2'', user_id = None\<rparr>)], wallet_map = [(''w1'', ''@bob''), (''w2'', ''@amy'')], seen_tx = [''s'']\<rparr>, [], False)))) ''@bob'' = None \<and>
   ''@bob'' \<notin> snd ` set (wallet_map (fst (expiry_step (demo_env\<lparr>post_ok := (\<lambda>r. False)\<rparr>) (\<lambda>u. TTL + 8) (''@bob'', \<lparr>join = Some ''5'', last_paid = Some ''7'', wallet = Some ''w1'', user_id = Some (Some 5)\<rparr>\<lparr>user_id := None\<rparr>) (\<lparr>users = [(''@bob'', \<lparr>join = Some ''5'', last_paid = Some ''7'', wallet = Some ''w1'', user_id = Some (Some 5)\<rparr>), (''@amy'', \<lparr>join = Some ''5'', last_paid = None, wallet = Some ''w2'', user_id = None\<rparr>)], wallet_map = [(''w1'', ''@bob''), (''w2'', ''@amy'')], seen_tx = [''s'']\<rparr>, [], False)))) \<and>
   (            map_of (users (fst (expiry_step (demo_env\<lparr>post_ok := (\<lambda>r. False)\<rparr>) (\<lambda>u. TTL + 8) (''@bob'', \<lparr>join = Some ''5'', last_paid = Some ''7'', wallet = Some ''w1'', user_id = Some (Some 5)\<rparr>\<lparr>user_id := None\<rparr>) (\<lparr>users = [(''@bob'', \<lparr>join = Some ''5'', last_paid = Some ''7'', wallet = Some ''w1'', user_id = Some (Some 5)\<rparr>), (''@amy'', \<lparr>join = Some ''5'', last_paid = None, wallet = Some ''w2'', user_id = None\<rparr>)], wallet_map = [(''w1'', ''@bob''), (''w2'', ''@amy'')], seen_tx = [''s'']\<rparr>, [], False)))) ''@amy'' = map_of (users \<lparr>users = [(''@bob'', \<lparr>join = Some ''5'', last_paid = Some ''7'', wallet = Some ''w1'', user_id = Some (Some 5)\<rparr>), (''@amy'', \<lparr>join = Some ''5'', last_paid = None, wallet = Some ''w2'', user_id = None\<rparr>)], wallet_map = [(''w1'', ''@bob''), (''w2'', ''@amy'')], seen_tx = [''s'']\<rparr>) ''@amy'' \<and>
      (''w2'', ''@amy'') \<in> set (wallet_map (fst (expiry_step (demo_env\<lparr>post_ok := (\<lambda>r. False)\<rparr>) (\<lambda>u. TTL + 8) (''@bob'', \<lparr>join = Some ''5'', last_paid = Some ''7'', wallet = Some ''w1'', user_id = Some (Some 5)\<rparr>\<lparr>user_id := None\<rparr>) (\<lparr>users = [(''@bob'', \<lparr>join = Some ''5'', last_paid = Some ''7'', wallet = Some ''w1'', user_id = Some (Some 5)\<rparr>), (''@amy'', \<lparr>join = Some ''5'', last_paid = None, wallet = Some ''w2'', user_id = None\<rparr>)], wallet_map = [(''w1'', ''@bob''), (''w2'', ''@amy'')], seen_tx = [''s'']\<rparr>, [], False))))) \<and>
   seen_tx (fst (expiry_step (demo_env\<lparr>post_ok := (\<lambda>r. False)\<rparr>) (\<lambda>u. TTL + 8) (''@bob'', \<lparr>join = Some ''5'', last_paid = Some ''7'', wallet = Some ''w1'', user_id = Some (Some 5)\<rparr>\<lparr>user_id := None\<rparr>) (\<lparr>users = [(''@bob'', \<lparr>join = Some ''5'', last_paid = Some ''7'', wallet = Some ''w1'', user_id = Some (Some 5)\<rparr>), (''@amy'', \<lparr>join = Some ''5'', last_paid = None, wallet = Some ''w2'', user_id = None\<rparr>)], wallet_map = [(''w1'', ''@bob''), (''w2'', ''@amy'')], seen_tx = [''s'']\<rparr>, [], False))) = seen_tx \<lparr>users = [(''@bob'', \<lparr>join = Some ''5'', last_paid = Some ''7'', wallet = Some ''w1'', user_id = Some (Some 5)\<rparr>), (''@amy'', \<lparr>join = Some ''5'', last_paid = None, wallet = Some ''w2'', user_id = None\<rparr>)], wallet_map = [(''w1'', ''@bob''), (''w2'', ''@amy'')], seen_tx = [''s'']\<rparr> \<and>
   snd (snd (expiry_step (demo_env\<lparr>post_ok := (\<lambda>r. False)\<rparr>) (\<lambda>u. TTL + 8) (''@bob'', \<lparr>join = Some ''5'', last_paid = Some ''7'', wallet = Some ''w1'', user_id = Some (Some 5)\<rparr>\<lparr>user_id := None\<rparr>) (\<lparr>users = [(''@bob'', \<lparr>join = Some ''5'', last_paid = Some ''7'', wallet = Some ''w1'', user_id = Some (Some 5)\<rparr>), (''@amy'', \<lparr>join = Some ''5'', last_paid = None, wallet = Some ''w2'', user_id = None\<rparr>)], wallet_map = [(''w1'', ''@bob''), (''w2'', ''@amy'')], seen_tx = [''s'']\<rparr>, [], False))) = True \<and>
   fst (daily_expiry_check (demo_env\<lparr>post_ok := (\<lambda>r. False)\<rparr>) (\<lambda>u. TTL + 8) \<lparr>users = [(''@bob'', \<lparr>join = Some ''5'', last_paid = Some ''7'', wallet = Some ''w1'', user_id = Some (Some 5)\<rparr>), (''@amy'', \<lparr>join = Some ''5'', last_paid = None, wallet = Some ''w2'', user_id = None\<rparr>)], wallet_map = [(''w1'', ''@bob''), (''w2'', ''@amy'')], seen_tx = [''s'']\<rparr>) = fst (daily_expiry_check demo_env (\<lambda>u. TTL + 8) \<lparr>users = [(''@bob'', \<lparr>join = Some ''5'', last_paid = Some ''7'', wallet = Some ''w1'', user_id = Some (Some 5)\<rparr>), (''@amy'', \<lparr>join = Some ''5'', last_paid = None, wallet = Some ''w2'', user_id = None\<rparr>)], wallet_map = [(''w1'', ''@bob''), (''w2'', ''@amy'')], seen_tx = [''s'']\<rparr>)"
proof -
  have h1: "\<not> is_whitelisted ''@bob''" by code_simp
  have p: "parse_digits ''7'' = Some 7" by code_simp
  have h2: "last_active demo_env \<lparr>join = Some ''5'', last_paid = Some ''7'', wallet = Some ''w1'', user_id = Some (Some 5)\<rparr> = Some 7"
    by (simp add: last_active_def or_else_def demo_env_def p)
  have h3: "(\<lambda>u. TTL + 8) ''@bob'' - 7 > TTL" by simp
  have n: "''@amy'' \<noteq> ''@bob''" by simp
  have m: "(''w2'', ''@amy'') \<in> set (wallet_map \<lparr>users = [(''@bob'', \<lparr>join = Some ''5'', last_paid = Some ''7'', wallet = Some ''w1'', user_id = Some (Some 5)\<rparr>), (''@amy'', \<lparr>join = Some ''5'', last_paid = None, wallet = Some ''w2'', user_id = None\<rparr>)], wallet_map = [(''w1'', ''@bob''), (''w2'', ''@amy'')], seen_tx = [''s'']\<rparr>)" by simp
  show ?thesis
    using h1 h2 h3 n m
      revoke_deletes_unconditionally [OF h1 h2 h3, where p = "\<lambda>r. False" and x = None
        and st = "\<lparr>users = [(''@bob'', \<lparr>join = Some ''5'', last_paid = Some ''7'', wallet = Some ''w1'', user_id = Some (Some 5)\<rparr>), (''@amy'', \<lparr>join = Some ''5'', last_paid = None, wallet = Some ''w2'', user_id = None\<rparr>)], wallet_map = [(''w1'', ''@bob''), (''w2'', ''@amy'')], seen_tx = [''s'']\<rparr>" and out = "[]" and ch = False and k = "''@amy''" and a = "''w2''"
        and ?st0.0 = "\<lparr>users = [(''@bob'', \<lparr>join = Some ''5'', last_paid = Some ''7'', wallet = Some ''w1'', user_id = Some (Some 5)\<rparr>), (''@amy'', \<lparr>join = Some ''5'', last_paid = None, wallet = Some ''w2'', user_id = None\<rparr>)], wallet_map = [(''w1'', ''@bob''), (''w2'', ''@amy'')], seen_tx = [''s'']\<rparr>"]
    by blast
qed

section \<open>The status query\<close>









section \<open>Summing the transfers\<close>















section \<open>When a payment grants access\<close>
























end
